theory Spec2Isabelle
  imports Complex_Main "HOL-Library.Multiset" "HOL-Library.Sublist" "HOL-Library.Monad_Syntax"
begin

section \<open>The memory system of the agent (src/agent.py)\<close>

text \<open>
  The development embeds the classes \<^verbatim>\<open>MemoryItem\<close> and \<^verbatim>\<open>MemorySystem\<close> of
  \<^verbatim>\<open>src/agent.py\<close>. Conventions of the embedding:
  \<^item> a Python \<^verbatim>\<open>float\<close> is read as the real number it denotes, so the literal
    \<^verbatim>\<open>0.7\<close> is \<open>7/10\<close>; NaN and the infinities are not values of the model;
  \<^item> a Python \<^verbatim>\<open>int\<close> is an \<open>int\<close>;
  \<^item> a Python \<^verbatim>\<open>str\<close> is a \<open>string\<close> whose characters are the code points below 256;
  \<^item> \<^verbatim>\<open>datetime.now()\<close> is an argument of the operation that calls it;
  \<^item> the file behind \<^verbatim>\<open>self.memory_file\<close> is a field of the state that holds what
    the file contains, and the outcome of writing it is an argument of the operation;
  \<^item> a call that can raise returns a value of a sum type, \<open>Inl\<close> the exception that
    reaches the caller and \<open>Inr\<close> the result of a call that returns;
  \<^item> what \<^verbatim>\<open>print\<close> writes is not part of the state. Whether the \<^verbatim>\<open>print\<close> in the
    handler of \<^verbatim>\<open>_load_memory\<close> raises is an argument of the constructor, since an
    exception there leaves the constructor. The \<^verbatim>\<open>print\<close> in the handler of
    \<^verbatim>\<open>_save_memory\<close> is the last statement of the two adding methods, which return
    nothing: the attributes after the call are the same whether it raises or not, and
    the operations of the model return these attributes.
\<close>

subsection \<open>Data model\<close>

text \<open>A naive \<^verbatim>\<open>datetime\<close>, as \<^verbatim>\<open>datetime.now()\<close> returns it.\<close>

record datetime =
  year :: nat
  month :: nat
  day :: nat
  hour :: nat
  minute :: nat
  second :: nat
  microsecond :: nat

text \<open>The dataclass \<^verbatim>\<open>MemoryItem\<close>.\<close>

record MemoryItem =
  timestamp :: datetime
  content :: string
  importance :: real
  tags :: "string list"

text \<open>
  One object of the JSON array in the memory file, after \<^verbatim>\<open>json.load\<close>: a dictionary in
  which each of the four keys may be missing (\<open>None\<close>). The timestamp is still a string.
  A file that \<^verbatim>\<open>json.load\<close> accepts is taken to hold what \<^verbatim>\<open>_save_memory\<close> writes: an
  array of such objects, with values of these types under the keys.
\<close>

record stored_record =
  r_timestamp :: "string option"
  r_content :: "string option"
  r_importance :: "real option"
  r_tags :: "string list option"

text \<open>
  What is at the path of the memory file: no file at all; a path that cannot be examined,
  so that \<^verbatim>\<open>Path.exists()\<close> raises (it passes on the \<^verbatim>\<open>OSError\<close> of \<^verbatim>\<open>stat\<close> unless the
  error says that there is no such file: a directory of the path that may not be searched
  is a \<^verbatim>\<open>PermissionError\<close>, a name that is too long an \<^verbatim>\<open>OSError\<close>); a file that
  \<^verbatim>\<open>open\<close> cannot read; a file that \<^verbatim>\<open>json.load\<close> rejects; or a JSON array of objects.
\<close>

datatype store = NoFile | Inaccessible | Unreadable | Unparsable | Records "stored_record list"

text \<open>
  How a write of the file ends: it succeeds, \<^verbatim>\<open>open(..., 'w')\<close> raises (the file is
  left as it was), or the file is opened, hence truncated, and \<^verbatim>\<open>json.dump\<close> raises
  before the text is complete.
\<close>

datatype write_outcome = Written | OpenFailed | DumpFailed

text \<open>The attributes of a \<^verbatim>\<open>MemorySystem\<close> object.\<close>

record MemorySystem =
  max_short_term :: int
  memory_file :: store
  short_term :: "MemoryItem list"
  long_term :: "MemoryItem list"

text \<open>The exceptions that loading can raise; \<open>OSError\<close> stands for the class and its
  subclasses, such as \<^verbatim>\<open>PermissionError\<close>.\<close>

datatype error = OSError | JSONDecodeError | KeyError string | ValueError string

text \<open>How the \<^verbatim>\<open>print\<close> in the handler of \<^verbatim>\<open>_load_memory\<close> ends: it writes the line, or
  it raises (the standard output is closed, or cannot take the text).\<close>

datatype print_outcome = Printed | PrintRaises error

subsection \<open>Library functions of Python\<close>

text \<open>\<^verbatim>\<open>tags or []\<close>: the default \<^verbatim>\<open>None\<close> and the empty list both give the empty list.\<close>

definition tags_or_empty :: "string list option \<Rightarrow> string list" where
  "tags_or_empty t = (case t of None \<Rightarrow> [] | Some ts \<Rightarrow> ts)"

text \<open>The slices \<^verbatim>\<open>xs[:j]\<close> and \<^verbatim>\<open>xs[i:]\<close>: a negative index counts from the end, and
  an index out of range is clipped.\<close>

definition slice_upto :: "int \<Rightarrow> 'a list \<Rightarrow> 'a list" where
  "slice_upto j xs =
     (let n = int (length xs);
          k = (if j < 0 then max (j + n) 0 else min j n)
      in take (nat k) xs)"

definition slice_from :: "int \<Rightarrow> 'a list \<Rightarrow> 'a list" where
  "slice_from i xs =
     (let n = int (length xs);
          k = (if i < 0 then max (i + n) 0 else min i n)
      in drop (nat k) xs)"

text \<open>\<^verbatim>\<open>str.isspace\<close> on the code points below 256; \<^verbatim>\<open>str.split()\<close> splits at these.\<close>

definition isspace :: "char \<Rightarrow> bool" where
  "isspace c =
     (let n = (of_char c :: nat)
      in (9 \<le> n \<and> n \<le> 13) \<or> (28 \<le> n \<and> n \<le> 32) \<or> n = 133 \<or> n = 160)"

text \<open>\<^verbatim>\<open>str.split()\<close> without arguments: the maximal runs of characters that are not
  whitespace, in order. The first argument is the token read so far.\<close>

fun split_acc :: "string \<Rightarrow> string \<Rightarrow> string list" where
  "split_acc cur [] = (if cur = [] then [] else [cur])"
| "split_acc cur (c # cs) =
     (if isspace c then (if cur = [] then split_acc [] cs else cur # split_acc [] cs)
      else split_acc (cur @ [c]) cs)"

definition str_split :: "string \<Rightarrow> string list" where
  "str_split q = split_acc [] q"

text \<open>\<^verbatim>\<open>str.lower\<close> on the code points below 256: the letters A to Z and the capital
  letters of Latin-1 (192 to 222 without the multiplication sign 215) move up by 32.\<close>

definition char_lower :: "char \<Rightarrow> char" where
  "char_lower c =
     (let n = (of_char c :: nat)
      in if (65 \<le> n \<and> n \<le> 90) \<or> (192 \<le> n \<and> n \<le> 222 \<and> n \<noteq> 215)
         then char_of (n + 32) else c)"

definition str_lower :: "string \<Rightarrow> string" where
  "str_lower s = map char_lower s"

text \<open>\<^verbatim>\<open>sub in s\<close> on strings: \<open>sub\<close> starts at some position of \<open>s\<close>.\<close>

fun str_contains :: "string \<Rightarrow> string \<Rightarrow> bool" where
  "str_contains sub [] = (sub = [])"
| "str_contains sub (c # cs) = (prefix sub (c # cs) \<or> str_contains sub cs)"

text \<open>\<^verbatim>\<open>sorted(xs, key=k, reverse=True)\<close>: a stable sort into descending order of the
  key, which is the stable ascending sort by the negated key.\<close>

definition sorted_reverse :: "('a \<Rightarrow> real) \<Rightarrow> 'a list \<Rightarrow> 'a list" where
  "sorted_reverse k xs = sort_key (\<lambda>x. - k x) xs"

text \<open>\<^verbatim>\<open>sep.join(xs)\<close>.\<close>

fun join :: "string \<Rightarrow> string list \<Rightarrow> string" where
  "join sep [] = []"
| "join sep [x] = x"
| "join sep (x # y # ys) = x @ sep @ join sep (y # ys)"

text \<open>The decimal digits of \<open>n\<close> in a field of width \<open>k\<close>, padded with zeros
  (\<^verbatim>\<open>%02d\<close>, \<^verbatim>\<open>%04d\<close>, \<^verbatim>\<open>%06d\<close>).\<close>

definition digit_char :: "nat \<Rightarrow> char" where
  "digit_char d = char_of (48 + d)"

fun digits :: "nat \<Rightarrow> nat \<Rightarrow> string" where
  "digits 0 n = []"
| "digits (Suc k) n = digits k (n div 10) @ [digit_char (n mod 10)]"

text \<open>\<^verbatim>\<open>strftime('%H:%M')\<close>.\<close>

definition strftime_HM :: "datetime \<Rightarrow> string" where
  "strftime_HM t = digits 2 (hour t) @ '':'' @ digits 2 (minute t)"

text \<open>\<^verbatim>\<open>datetime.isoformat()\<close> of a naive datetime: the fraction is written only when
  the microseconds are not zero.\<close>

definition isoformat :: "datetime \<Rightarrow> string" where
  "isoformat t =
     digits 4 (year t) @ ''-'' @ digits 2 (month t) @ ''-'' @ digits 2 (day t) @ ''T'' @
     digits 2 (hour t) @ '':'' @ digits 2 (minute t) @ '':'' @ digits 2 (second t) @
     (if microsecond t = 0 then [] else ''.'' @ digits 6 (microsecond t))"

text \<open>The values a \<^verbatim>\<open>datetime\<close> object can hold.\<close>

definition is_leap :: "nat \<Rightarrow> bool" where
  "is_leap y = (y mod 4 = 0 \<and> (y mod 100 \<noteq> 0 \<or> y mod 400 = 0))"

definition days_in_month :: "nat \<Rightarrow> nat \<Rightarrow> nat" where
  "days_in_month y m =
     (if m = 2 then (if is_leap y then 29 else 28)
      else if m = 4 \<or> m = 6 \<or> m = 9 \<or> m = 11 then 30 else 31)"

definition valid_datetime :: "datetime \<Rightarrow> bool" where
  "valid_datetime t =
     (1 \<le> year t \<and> year t \<le> 9999 \<and> 1 \<le> month t \<and> month t \<le> 12 \<and>
      1 \<le> day t \<and> day t \<le> days_in_month (year t) (month t) \<and>
      hour t < 24 \<and> minute t < 60 \<and> second t < 60 \<and> microsecond t < 1000000)"

text \<open>
  \<^verbatim>\<open>datetime.fromisoformat\<close>. It is the inverse of \<^verbatim>\<open>isoformat\<close>: a string of one of the
  two forms that \<^verbatim>\<open>isoformat\<close> writes for a naive datetime, \<^verbatim>\<open>YYYY-MM-DD*HH:MM:SS\<close> and
  \<^verbatim>\<open>YYYY-MM-DD*HH:MM:SS.ffffff\<close> (where \<^verbatim>\<open>*\<close> is any one character), with fields in
  range, gives the datetime of these fields. What the function does with any other string
  depends on the version of Python: it raises \<^verbatim>\<open>ValueError\<close> for most, and reads further
  ISO 8601 forms (a date alone, a shorter time, a shorter fraction, a UTC offset), more of
  them from version 3.11 on. This behaviour of the library is the argument \<open>other\<close>: the
  result of the library for a string that is not of the two forms. Every property below
  holds for every \<open>other\<close>. The datetime that \<open>other\<close> returns is a naive one; an offset
  that the library reads is not kept.
\<close>

definition is_digit :: "char \<Rightarrow> bool" where
  "is_digit c = (48 \<le> (of_char c :: nat) \<and> (of_char c :: nat) \<le> 57)"

definition digits_value :: "string \<Rightarrow> nat" where
  "digits_value s = foldl (\<lambda>a c. 10 * a + ((of_char c :: nat) - 48)) 0 s"

definition read_digits :: "nat \<Rightarrow> string \<Rightarrow> (nat \<times> string) option" where
  "read_digits k s =
     (if k \<le> length s \<and> list_all is_digit (take k s)
      then Some (digits_value (take k s), drop k s) else None)"

definition read_char :: "char \<Rightarrow> string \<Rightarrow> string option" where
  "read_char c s = (case s of [] \<Rightarrow> None | x # xs \<Rightarrow> if x = c then Some xs else None)"

definition read_any :: "string \<Rightarrow> string option" where
  "read_any s = (case s of [] \<Rightarrow> None | x # xs \<Rightarrow> Some xs)"

definition parse_fraction :: "string \<Rightarrow> nat option" where
  "parse_fraction s =
     (if s = [] then Some 0
      else case read_char (CHR ''.'') s of
             None \<Rightarrow> None
           | Some s1 \<Rightarrow> (case read_digits 6 s1 of
                          None \<Rightarrow> None
                        | Some (us, s2) \<Rightarrow> if s2 = [] then Some us else None))"

definition parse_datetime :: "string \<Rightarrow> datetime option" where
  "parse_datetime s =
     do {
       (y, s1) \<leftarrow> read_digits 4 s;
       s2 \<leftarrow> read_char (CHR ''-'') s1;
       (mo, s3) \<leftarrow> read_digits 2 s2;
       s4 \<leftarrow> read_char (CHR ''-'') s3;
       (d, s5) \<leftarrow> read_digits 2 s4;
       s6 \<leftarrow> read_any s5;
       (h, s7) \<leftarrow> read_digits 2 s6;
       s8 \<leftarrow> read_char (CHR '':'') s7;
       (mi, s9) \<leftarrow> read_digits 2 s8;
       s10 \<leftarrow> read_char (CHR '':'') s9;
       (se, s11) \<leftarrow> read_digits 2 s10;
       us \<leftarrow> parse_fraction s11;
       Some \<lparr>year = y, month = mo, day = d, hour = h, minute = mi, second = se,
             microsecond = us\<rparr>
     }"

definition fromisoformat :: "(string \<Rightarrow> error + datetime) \<Rightarrow> string \<Rightarrow> error + datetime" where
  "fromisoformat other s =
     (case parse_datetime s of
        None \<Rightarrow> other s
      | Some t \<Rightarrow> if valid_datetime t then Inr t else other s)"

subsection \<open>Persistence\<close>

text \<open>The dictionary that \<^verbatim>\<open>_save_memory\<close> builds for one item.\<close>

definition to_record :: "MemoryItem \<Rightarrow> stored_record" where
  "to_record mem =
     \<lparr>r_timestamp = Some (isoformat (timestamp mem)), r_content = Some (content mem),
      r_importance = Some (importance mem), r_tags = Some (tags mem)\<rparr>"

text \<open>
  \<^verbatim>\<open>_save_memory\<close>: every item of \<^verbatim>\<open>long_term\<close> becomes one object of the array, in
  order. The write is inside \<^verbatim>\<open>try\<close>: when it raises, the exception is caught and only
  the file may differ. The text that \<^verbatim>\<open>json.dump\<close> writes and \<^verbatim>\<open>json.load\<close> reads back
  is not modelled; the file holds the value that \<^verbatim>\<open>json.load\<close> would return.
\<close>

definition save_memory :: "write_outcome \<Rightarrow> MemorySystem \<Rightarrow> MemorySystem" where
  "save_memory w s =
     (case w of
        Written \<Rightarrow> s\<lparr>memory_file := Records (map to_record (long_term s))\<rparr>
      | OpenFailed \<Rightarrow> s
      | DumpFailed \<Rightarrow> s\<lparr>memory_file := Unparsable\<rparr>)"

text \<open>One \<^verbatim>\<open>MemoryItem(...)\<close> of the list comprehension in \<^verbatim>\<open>_load_memory\<close>: the
  arguments are evaluated in the order in which they are written.\<close>

definition from_record ::
  "(string \<Rightarrow> error + datetime) \<Rightarrow> stored_record \<Rightarrow> error + MemoryItem" where
  "from_record other r =
     (case r_timestamp r of
        None \<Rightarrow> Inl (KeyError ''timestamp'')
      | Some ts \<Rightarrow>
         (case fromisoformat other ts of
            Inl e \<Rightarrow> Inl e
          | Inr t \<Rightarrow>
             (case r_content r of
                None \<Rightarrow> Inl (KeyError ''content'')
              | Some c \<Rightarrow>
                 (case r_importance r of
                    None \<Rightarrow> Inl (KeyError ''importance'')
                  | Some i \<Rightarrow>
                     (case r_tags r of
                        None \<Rightarrow> Inl (KeyError ''tags'')
                      | Some tg \<Rightarrow>
                         Inr \<lparr>timestamp = t, content = c, importance = i, tags = tg\<rparr>)))))"

text \<open>The list comprehension: the first record that raises ends it, and no list is
  produced.\<close>

fun from_records ::
  "(string \<Rightarrow> error + datetime) \<Rightarrow> stored_record list \<Rightarrow> error + MemoryItem list" where
  "from_records other [] = Inr []"
| "from_records other (r # rs) =
     (case from_record other r of
        Inl e \<Rightarrow> Inl e
      | Inr mem \<Rightarrow>
         (case from_records other rs of Inl e \<Rightarrow> Inl e | Inr mems \<Rightarrow> Inr (mem # mems)))"

text \<open>\<^verbatim>\<open>self.memory_file.exists()\<close>, the test before the \<^verbatim>\<open>try\<close> block.\<close>

definition path_exists :: "store \<Rightarrow> error + bool" where
  "path_exists f =
     (case f of
        NoFile \<Rightarrow> Inr False
      | Inaccessible \<Rightarrow> Inl OSError
      | Unreadable \<Rightarrow> Inr True
      | Unparsable \<Rightarrow> Inr True
      | Records rs \<Rightarrow> Inr True)"

text \<open>The body of the \<^verbatim>\<open>try\<close> block of \<^verbatim>\<open>_load_memory\<close>: \<^verbatim>\<open>open\<close>, \<^verbatim>\<open>json.load\<close> and
  the list comprehension. It runs only when the test before it has returned \<^verbatim>\<open>True\<close>.\<close>

definition read_store :: "(string \<Rightarrow> error + datetime) \<Rightarrow> store \<Rightarrow> error + MemoryItem list" where
  "read_store other f =
     (case f of
        NoFile \<Rightarrow> Inl OSError
      | Inaccessible \<Rightarrow> Inl OSError
      | Unreadable \<Rightarrow> Inl OSError
      | Unparsable \<Rightarrow> Inl JSONDecodeError
      | Records rs \<Rightarrow> from_records other rs)"

text \<open>
  \<^verbatim>\<open>_load_memory\<close>. An exception of the test \<^verbatim>\<open>exists()\<close> is outside the \<^verbatim>\<open>try\<close> block
  and leaves the method. Inside the block \<^verbatim>\<open>long_term\<close> is assigned only after the whole
  list has been built; \<^verbatim>\<open>except Exception\<close> catches every error of the block, assigns
  nothing and prints a line; an exception of this \<^verbatim>\<open>print\<close> leaves the method.
\<close>

definition load_memory ::
  "(string \<Rightarrow> error + datetime) \<Rightarrow> print_outcome \<Rightarrow> MemorySystem \<Rightarrow> error + MemorySystem" where
  "load_memory other p s =
     (case path_exists (memory_file s) of
        Inl e \<Rightarrow> Inl e
      | Inr found \<Rightarrow>
         if found
         then (case read_store other (memory_file s) of
                 Inr mems \<Rightarrow> Inr (s\<lparr>long_term := mems\<rparr>)
               | Inl e \<Rightarrow> (case p of Printed \<Rightarrow> Inr s | PrintRaises e' \<Rightarrow> Inl e'))
         else Inr s)"

text \<open>
  \<^verbatim>\<open>MemorySystem.__init__\<close>: the four assignments, then \<^verbatim>\<open>_load_memory\<close>, whose
  exception, if any, is the exception of the constructor. The arguments \<open>other\<close> and \<open>p\<close>
  are the behaviour of the library and of \<^verbatim>\<open>print\<close> described above, and \<open>f\<close> is what is
  at the path \<^verbatim>\<open>memory_file\<close> when the object is constructed.
\<close>

definition MemorySystem_init ::
  "(string \<Rightarrow> error + datetime) \<Rightarrow> print_outcome \<Rightarrow> int \<Rightarrow> store \<Rightarrow> error + MemorySystem" where
  "MemorySystem_init other p cap f =
     load_memory other p
       \<lparr>max_short_term = cap, memory_file = f, short_term = [], long_term = []\<rparr>"

subsection \<open>The operations\<close>

text \<open>
  \<^verbatim>\<open>add_short_term\<close>. The arguments \<open>now\<close> and \<open>w\<close> are the value of
  \<^verbatim>\<open>datetime.now()\<close> and the outcome of the write. \<^verbatim>\<open>pop(0)\<close> is applied to a list that
  has just received an item, so it cannot raise.
\<close>

definition add_short_term ::
  "datetime \<Rightarrow> write_outcome \<Rightarrow> string \<Rightarrow> real \<Rightarrow> string list option \<Rightarrow>
   MemorySystem \<Rightarrow> MemorySystem" where
  "add_short_term now w c i tg s =
     (let item = \<lparr>timestamp = now, content = c, importance = i, tags = tags_or_empty tg\<rparr>;
          s1 = s\<lparr>short_term := short_term s @ [item]\<rparr>;
          s2 = (if int (length (short_term s1)) > max_short_term s1
                then (let oldest = hd (short_term s1);
                          s' = s1\<lparr>short_term := tl (short_term s1)\<rparr>
                      in if importance oldest \<ge> 7 / 10
                         then s'\<lparr>long_term := long_term s' @ [oldest]\<rparr> else s')
                else s1)
      in save_memory w s2)"

text \<open>\<^verbatim>\<open>add_long_term\<close>.\<close>

definition add_long_term ::
  "datetime \<Rightarrow> write_outcome \<Rightarrow> string \<Rightarrow> real \<Rightarrow> string list option \<Rightarrow>
   MemorySystem \<Rightarrow> MemorySystem" where
  "add_long_term now w c i tg s =
     (let item = \<lparr>timestamp = now, content = c, importance = i, tags = tags_or_empty tg\<rparr>
      in save_memory w (s\<lparr>long_term := long_term s @ [item]\<rparr>))"

text \<open>The condition of the list comprehension in \<^verbatim>\<open>search_memory\<close>.\<close>

definition relevant :: "string \<Rightarrow> MemoryItem \<Rightarrow> bool" where
  "relevant query mem =
     list_ex (\<lambda>word. str_contains (str_lower word) (str_lower (content mem))) (str_split query)"

text \<open>\<^verbatim>\<open>search_memory\<close>; it reads the two lists and assigns nothing.\<close>

definition search_memory :: "string \<Rightarrow> int \<Rightarrow> MemorySystem \<Rightarrow> MemoryItem list" where
  "search_memory query limit s =
     (let all_memories = short_term s @ long_term s
      in slice_upto limit (sorted_reverse importance (filter (relevant query) all_memories)))"

text \<open>\<^verbatim>\<open>get_context\<close>; it reads \<^verbatim>\<open>short_term\<close> and assigns nothing.\<close>

definition render :: "MemoryItem \<Rightarrow> string" where
  "render mem = ''['' @ strftime_HM (timestamp mem) @ ''] '' @ content mem"

definition get_context :: "int \<Rightarrow> MemorySystem \<Rightarrow> string" where
  "get_context limit s =
     (if short_term s = [] then ''No previous context.''
      else join [CHR 0x0A] (map render (slice_from (- limit) (short_term s))))"

subsection \<open>Sequences of calls\<close>

text \<open>A call of one of the four public methods, with its arguments.\<close>

datatype operation =
    AddShortTerm datetime write_outcome string real "string list option"
  | AddLongTerm datetime write_outcome string real "string list option"
  | SearchMemory string int
  | GetContext int

text \<open>The state after one call, and after a sequence of calls. The two reading methods
  return a value and leave every attribute as it is.\<close>

fun step :: "MemorySystem \<Rightarrow> operation \<Rightarrow> MemorySystem" where
  "step s (AddShortTerm now w c i tg) = add_short_term now w c i tg s"
| "step s (AddLongTerm now w c i tg) = add_long_term now w c i tg s"
| "step s (SearchMemory query limit) = s"
| "step s (GetContext limit) = s"

definition run :: "MemorySystem \<Rightarrow> operation list \<Rightarrow> MemorySystem" where
  "run s ops = foldl step s ops"

subsection \<open>Notions of the specification\<close>

text \<open>The capacity invariant: \<^verbatim>\<open>len(short_term) <= max_short_term\<close>.\<close>

definition short_term_bounded :: "MemorySystem \<Rightarrow> bool" where
  "short_term_bounded s = (int (length (short_term s)) \<le> max_short_term s)"



text \<open>The first \<open>n\<close> entries of a sequence, for a count \<open>n\<close>: none when \<open>n\<close> is not
  positive, all when the sequence is shorter.\<close>

definition first_entries :: "int \<Rightarrow> 'a list \<Rightarrow> 'a list" where
  "first_entries n xs = take (nat n) xs"

text \<open>
  A whitespace-delimited token of \<open>q\<close>: a piece of \<open>q\<close> that is not empty, holds no
  whitespace, and has the start of \<open>q\<close> or a whitespace character before it and the end of
  \<open>q\<close> or a whitespace character after it.
\<close>

definition is_token :: "string \<Rightarrow> string \<Rightarrow> bool" where
  "is_token q w =
     (w \<noteq> [] \<and> list_all (\<lambda>c. \<not> isspace c) w \<and>
      (\<exists>pre suf. q = pre @ w @ suf \<and>
         (pre = [] \<or> isspace (last pre)) \<and> (suf = [] \<or> isspace (hd suf))))"

text \<open>
  The match of the specification: some token of the query occurs in the content as a
  substring, both taken in lower case.
\<close>

definition spec_matches :: "string \<Rightarrow> MemoryItem \<Rightarrow> bool" where
  "spec_matches q mem =
     (\<exists>w. is_token q w \<and> sublist (str_lower w) (str_lower (content mem)))"

subsection \<open>Example values\<close>

text \<open>The scenario of the specification: capacity 2 and the items A, B and C with the
  importances 0.5, 0.9 and 0.3.\<close>

definition ex_time :: datetime where
  "ex_time = \<lparr>year = 2024, month = 5, day = 17, hour = 9, minute = 30, second = 0,
              microsecond = 0\<rparr>"

definition ex_A :: MemoryItem where
  "ex_A = \<lparr>timestamp = ex_time, content = ''A'', importance = 1 / 2, tags = []\<rparr>"

definition ex_B :: MemoryItem where
  "ex_B = \<lparr>timestamp = ex_time, content = ''B'', importance = 9 / 10, tags = []\<rparr>"

definition ex_C :: MemoryItem where
  "ex_C = \<lparr>timestamp = ex_time, content = ''C'', importance = 3 / 10, tags = []\<rparr>"

definition ex_full :: MemorySystem where
  "ex_full = \<lparr>max_short_term = 2, memory_file = Records [], short_term = [ex_A, ex_B],
              long_term = []\<rparr>"

text \<open>
  An example of the library: one that rejects every string that is not of the two forms
  of \<^verbatim>\<open>isoformat\<close>. Every version of Python reads more; the examples below give it only
  strings of the two forms and the string \<^verbatim>\<open>yesterday\<close>, which every version rejects.
\<close>

definition no_other_form :: "string \<Rightarrow> error + datetime" where
  "no_other_form ts = Inl (ValueError ts)"

text \<open>The manager that the constructor builds when nothing is loaded.\<close>

definition empty_manager :: "int \<Rightarrow> store \<Rightarrow> MemorySystem" where
  "empty_manager cap f =
     \<lparr>max_short_term = cap, memory_file = f, short_term = [], long_term = []\<rparr>"


definition ex_stored :: MemorySystem where
  "ex_stored = \<lparr>max_short_term = 2, memory_file = NoFile, short_term = [],
     long_term = [ex_B, ex_A\<lparr>timestamp := ex_time\<lparr>microsecond := 250\<rparr>,
       tags := [''x'', ''y'']\<rparr>]\<rparr>"

text \<open>Six notes of equal importance, four in the short-term and two in the long-term
  memory.\<close>

definition ex_note :: "nat \<Rightarrow> MemoryItem" where
  "ex_note n = \<lparr>timestamp = ex_time, content = ''note '' @ digits 1 n, importance = 1 / 2,
     tags = []\<rparr>"

definition ex_six :: MemorySystem where
  "ex_six = \<lparr>max_short_term = 10, memory_file = Records [],
     short_term = [ex_note 1, ex_note 2, ex_note 3, ex_note 4],
     long_term = [ex_note 5, ex_note 6]\<rparr>"

section \<open>Properties\<close>

subsection \<open>What saving and constructing leave alone\<close>

lemma save_memory_short: "short_term (save_memory w s) = short_term s"
  by (cases w) (simp_all add: save_memory_def)

lemma save_memory_long: "long_term (save_memory w s) = long_term s"
  by (cases w) (simp_all add: save_memory_def)

lemma save_memory_max: "max_short_term (save_memory w s) = max_short_term s"
  by (cases w) (simp_all add: save_memory_def)

lemma max_short_term_init:
  "MemorySystem_init other p cap f = Inr s \<Longrightarrow> max_short_term s = cap"
  by (auto simp add: MemorySystem_init_def load_memory_def
      split: sum.splits if_splits print_outcome.splits)

lemma short_term_init:
  "MemorySystem_init other p cap f = Inr s \<Longrightarrow> short_term s = []"
  by (auto simp add: MemorySystem_init_def load_memory_def
      split: sum.splits if_splits print_outcome.splits)

lemma MemorySystem_init_NoFile:
  "MemorySystem_init other p cap NoFile = Inr (empty_manager cap NoFile)"
  by (simp add: MemorySystem_init_def load_memory_def path_exists_def empty_manager_def)

subsection \<open>Eviction from the short-term list\<close>

text \<open>
  Claim C1. When appending the new item makes the short-term list longer than
  \<^verbatim>\<open>max_short_term\<close>, the list after the call is the appended list without its first
  element \<open>oldest\<close>. If the importance of \<open>oldest\<close> is at least 0.7 it is appended, once,
  at the end of the long-term list; if it is below 0.7 the long-term list is unchanged and
  the two lists together hold one occurrence of \<open>oldest\<close> less than before, so the evicted
  occurrence is in neither list.
\<close>

theorem add_short_term_eviction:
  "int (length (short_term s)) + 1 > max_short_term s \<Longrightarrow>
   (let item = \<lparr>timestamp = now, content = c, importance = i, tags = tags_or_empty tg\<rparr>;
        oldest = hd (short_term s @ [item]);
        s' = add_short_term now w c i tg s
    in short_term s @ [item] = oldest # short_term s' \<and>
       (importance oldest \<ge> 7 / 10 \<longrightarrow> long_term s' = long_term s @ [oldest]) \<and>
       (importance oldest < 7 / 10 \<longrightarrow> long_term s' = long_term s \<and>
          count (mset (short_term s' @ long_term s')) oldest + 1 =
          count (mset ((short_term s @ [item]) @ long_term s)) oldest))"
  by (cases "short_term s")
    (simp_all add: add_short_term_def Let_def save_memory_short save_memory_long)

theorem add_short_term_eviction_witness:
  "short_term (add_short_term ex_time Written ''C'' (3 / 10) None ex_full) = [ex_B, ex_C] \<and>
   long_term (add_short_term ex_time Written ''C'' (3 / 10) None ex_full) = []"
proof -
  have h: "int (length (short_term ex_full)) + 1 > max_short_term ex_full"
    by (simp add: ex_full_def)
  show ?thesis
    using add_short_term_eviction [OF h, of ex_time "''C''" "3 / 10" None Written]
    by (simp add: Let_def ex_full_def ex_A_def ex_B_def ex_C_def tags_or_empty_def)
qed

subsection \<open>The capacity invariant\<close>

lemma add_short_term_max: "max_short_term (add_short_term now w c i tg s) = max_short_term s"
  by (simp add: add_short_term_def Let_def save_memory_max)

lemma add_short_term_bounded:
  "short_term_bounded s \<Longrightarrow> short_term_bounded (add_short_term now w c i tg s)"
  by (auto simp add: short_term_bounded_def add_short_term_def Let_def save_memory_short
      save_memory_max)

lemma add_long_term_bounded:
  "short_term_bounded s \<Longrightarrow> short_term_bounded (add_long_term now w c i tg s)"
  by (simp add: short_term_bounded_def add_long_term_def Let_def save_memory_short
      save_memory_max)

lemma step_bounded: "short_term_bounded s \<Longrightarrow> short_term_bounded (step s op)"
  by (cases op) (simp_all add: add_short_term_bounded add_long_term_bounded)

lemma run_bounded: "short_term_bounded s \<Longrightarrow> short_term_bounded (run s ops)"
  unfolding run_def by (induction ops arbitrary: s) (simp_all add: step_bounded)

lemma step_max: "max_short_term (step s op) = max_short_term s"
  by (cases op) (simp_all add: add_short_term_max add_long_term_def Let_def save_memory_max)

lemma run_max: "max_short_term (run s ops) = max_short_term s"
  unfolding run_def by (induction ops arbitrary: s) (simp_all add: step_max)

text \<open>
  Claim C2 as stated fails: \<^verbatim>\<open>max_short_term\<close> is any \<^verbatim>\<open>int\<close>, and a manager
  constructed with the capacity \<open>-1\<close> has an empty short-term list after a call of
  \<^verbatim>\<open>add_short_term\<close>, whose length 0 is not at most \<open>-1\<close>.
\<close>

theorem short_term_bound_counterexample:
  "MemorySystem_init no_other_form Printed (- 1) NoFile = Inr (empty_manager (- 1) NoFile) \<and>
   \<not> int (length (short_term (add_short_term ex_time Written ''A'' 1 None
          (empty_manager (- 1) NoFile))))
      \<le> max_short_term (add_short_term ex_time Written ''A'' 1 None
          (empty_manager (- 1) NoFile))"
  by (simp add: MemorySystem_init_NoFile add_short_term_def Let_def save_memory_short
      save_memory_max empty_manager_def)

text \<open>
  Claim C2, amended. For a manager constructed with a capacity that is not negative,
  \<^verbatim>\<open>len(short_term) <= max_short_term\<close> holds after every sequence of calls of the four
  methods, and the capacity never changes; and every single call preserves the invariant
  in any state in which it holds.
\<close>

theorem short_term_bound:
  "(0 \<le> cap \<and> MemorySystem_init other p cap f = Inr s0 \<longrightarrow>
      int (length (short_term (run s0 ops))) \<le> cap \<and>
      max_short_term (run s0 ops) = cap) \<and>
   (short_term_bounded s \<longrightarrow> short_term_bounded (step s op))"
proof -
  have "short_term_bounded (run s0 ops) \<and> max_short_term (run s0 ops) = cap"
    if "0 \<le> cap" and i: "MemorySystem_init other p cap f = Inr s0"
  proof -
    have "short_term_bounded s0"
      using that by (simp add: short_term_bounded_def short_term_init [OF i]
          max_short_term_init [OF i])
    then show ?thesis
      by (simp add: run_bounded run_max max_short_term_init [OF i])
  qed
  then show ?thesis
    by (auto simp add: short_term_bounded_def run_max
        step_bounded [unfolded short_term_bounded_def])
qed

theorem short_term_bound_witness:
  "MemorySystem_init no_other_form Printed 2 NoFile = Inr (empty_manager 2 NoFile) \<and>
   int (length (short_term (run (empty_manager 2 NoFile)
      [AddShortTerm ex_time Written ''A'' (1 / 2) None,
       AddShortTerm ex_time Written ''B'' (9 / 10) None,
       AddShortTerm ex_time Written ''C'' (3 / 10) None]))) \<le> 2 \<and>
   short_term_bounded (step ex_full (AddShortTerm ex_time Written ''C'' (3 / 10) None))"
proof -
  have h: "short_term_bounded ex_full"
    by (simp add: short_term_bounded_def ex_full_def)
  have i: "MemorySystem_init no_other_form Printed 2 NoFile = Inr (empty_manager 2 NoFile)"
    by (rule MemorySystem_init_NoFile)
  show ?thesis
    using short_term_bound [of 2 no_other_form Printed NoFile "empty_manager 2 NoFile"
        "[AddShortTerm ex_time Written ''A'' (1 / 2) None,
          AddShortTerm ex_time Written ''B'' (9 / 10) None,
          AddShortTerm ex_time Written ''C'' (3 / 10) None]" ex_full
        "AddShortTerm ex_time Written ''C'' (3 / 10) None"] h i
    by simp
qed

subsection \<open>Queries without a token\<close>

lemma split_acc_spaces: "list_all isspace q \<Longrightarrow> split_acc [] q = []"
  by (induction q) simp_all

lemma slice_upto_Nil: "slice_upto j [] = []"
  by (simp add: slice_upto_def)

text \<open>
  Claim C8. For a query that is empty or consists of whitespace only, \<^verbatim>\<open>search_memory\<close>
  returns the empty list, whatever the two lists hold and whatever the limit is.
\<close>

theorem search_memory_blank_query:
  "\<forall>c \<in> set q. isspace c \<Longrightarrow> search_memory q limit s = []"
proof -
  assume "\<forall>c \<in> set q. isspace c"
  then have "str_split q = []"
    by (simp add: str_split_def split_acc_spaces list_all_iff)
  then have "filter (relevant q) (short_term s @ long_term s) = []"
    by (simp add: relevant_def)
  then show ?thesis
    by (simp add: search_memory_def sorted_reverse_def slice_upto_Nil del: filter_append)
qed

theorem search_memory_blank_query_witness:
  "search_memory [] 5 ex_full = [] \<and>
   search_memory [CHR '' '', CHR 0x09, CHR 0x0A] 5 ex_full = []"
proof -
  have h1: "\<forall>c \<in> set ([] :: string). isspace c"
    by simp
  have h2: "\<forall>c \<in> set [CHR '' '', CHR 0x09, CHR 0x0A]. isspace c"
    by (simp add: isspace_def)
  show ?thesis
    using search_memory_blank_query [OF h1, of 5 ex_full]
      search_memory_blank_query [OF h2, of 5 ex_full] by simp
qed

subsection \<open>Adding to the long-term list\<close>

text \<open>
  Claim C9. \<^verbatim>\<open>add_long_term\<close> appends exactly one item at the end of the long-term list,
  made of the current time and the given content and importance, and of the given tags:
  the list \<open>ts\<close> when the caller gives one, and no tag when the caller gives none. It
  leaves the short-term list and the capacity as they were. All this holds whatever the
  write of the file does.
\<close>

theorem add_long_term_appends:
  "long_term (add_long_term now w c i (Some ts) s) =
     long_term s @ [\<lparr>timestamp = now, content = c, importance = i, tags = ts\<rparr>] \<and>
   long_term (add_long_term now w c i None s) =
     long_term s @ [\<lparr>timestamp = now, content = c, importance = i, tags = []\<rparr>] \<and>
   length (long_term (add_long_term now w c i tg s)) = length (long_term s) + 1 \<and>
   short_term (add_long_term now w c i tg s) = short_term s \<and>
   max_short_term (add_long_term now w c i tg s) = max_short_term s"
  by (simp add: add_long_term_def Let_def save_memory_short save_memory_long save_memory_max
      tags_or_empty_def)

subsection \<open>The long-term list only grows\<close>

lemma add_short_term_prefix:
  "prefix (long_term s) (long_term (add_short_term now w c i tg s))"
  by (simp add: add_short_term_def Let_def save_memory_long)

lemma step_prefix: "prefix (long_term s) (long_term (step s op))"
  by (cases op) (simp_all add: add_short_term_prefix add_long_term_def Let_def save_memory_long)

lemma run_prefix: "prefix (long_term s) (long_term (run s ops))"
  unfolding run_def
proof (induction ops arbitrary: s)
  case Nil
  show ?case by simp
next
  case (Cons a ops)
  have "prefix (long_term s) (long_term (step s a))"
    by (rule step_prefix)
  also have "prefix (long_term (step s a)) (long_term (foldl step (step s a) ops))"
    by (rule Cons.IH)
  finally show ?case by simp
qed

text \<open>
  Claim C10. Every call of one of the four methods, and hence every sequence of calls,
  leaves the long-term list it found as a prefix of the long-term list it leaves: no entry
  is removed, moved or changed.
\<close>

theorem long_term_append_only:
  "prefix (long_term s) (long_term (step s op)) \<and>
   prefix (long_term s) (long_term (run s ops))"
  by (simp add: step_prefix run_prefix)

subsection \<open>The recent context\<close>

lemma get_context_empty:
  "short_term s = [] \<Longrightarrow> get_context limit s = ''No previous context.''"
  by (simp add: get_context_def)

lemma get_context_positive:
  "short_term s \<noteq> [] \<Longrightarrow> 0 < limit \<Longrightarrow>
   get_context limit s =
     join [CHR 0x0A] (map render (drop (length (short_term s) - nat limit) (short_term s)))"
  by (auto simp add: get_context_def slice_from_def Let_def max_def nat_diff_distrib'
      intro: arg_cong)

text \<open>
  Claim C5 holds for the empty short-term list and for every limit above zero (the two
  lemmas before). It fails for the limit 0: \<^verbatim>\<open>short_term[-0:]\<close> is the whole list, so
  \<^verbatim>\<open>get_context(0)\<close> renders every item where the last 0 items are none. Here the
  short-term list holds the items A and B.
\<close>

theorem get_context_limit_zero:
  "get_context 0 ex_full = ''[09:30] A'' @ [CHR 0x0A] @ ''[09:30] B''"
  by code_simp

subsection \<open>Saving and loading again\<close>

lemma length_digits: "length (digits k n) = k"
  by (induction k arbitrary: n) simp_all

lemma is_digit_digit_char: "d < 10 \<Longrightarrow> is_digit (digit_char d)"
  by (simp add: is_digit_def digit_char_def)

lemma digits_all_digit: "list_all is_digit (digits k n)"
  by (induction k arbitrary: n) (simp_all add: is_digit_digit_char)

lemma digits_value_snoc:
  "digits_value (s @ [c]) = 10 * digits_value s + ((of_char c :: nat) - 48)"
  by (simp add: digits_value_def)

lemma digits_value_digits: "digits_value (digits k n) = n mod 10 ^ k"
proof (induction k arbitrary: n)
  case 0
  show ?case by (simp add: digits_value_def)
next
  case (Suc k)
  have "digits_value (digits (Suc k) n) = 10 * (n div 10 mod 10 ^ k) + n mod 10"
    by (simp add: digits_value_snoc Suc.IH digit_char_def)
  also have "\<dots> = n mod 10 ^ Suc k"
    by (simp add: mod_mult2_eq)
  finally show ?case .
qed

lemma read_digits_digits:
  "n < 10 ^ k \<Longrightarrow> read_digits k (digits k n @ rest) = Some (n, rest)"
  by (simp add: read_digits_def length_digits digits_all_digit digits_value_digits)

lemma read_char_Cons: "read_char c (c # rest) = Some rest"
  by (simp add: read_char_def)

lemma read_any_Cons: "read_any (c # rest) = Some rest"
  by (simp add: read_any_def)

lemma parse_fraction_digits:
  "us < 1000000 \<Longrightarrow>
   parse_fraction (if us = 0 then [] else ''.'' @ digits 6 us) = Some us"
  using read_digits_digits [of us 6 "[]"]
  by (simp add: parse_fraction_def read_char_Cons)

lemma parse_datetime_isoformat:
  assumes "year t < 10000" "month t < 100" "day t < 100" "hour t < 100" "minute t < 100"
    "second t < 100" "microsecond t < 1000000"
  shows "parse_datetime (isoformat t) = Some t"
proof -
  define frac where
    "frac = (if microsecond t = 0 then [] else ''.'' @ digits 6 (microsecond t))"
  have f: "parse_fraction frac = Some (microsecond t)"
    unfolding frac_def using assms by (intro parse_fraction_digits)
  have y: "read_digits 4 (digits 4 (year t) @ rest) = Some (year t, rest)" for rest
    using assms by (simp add: read_digits_digits)
  have two: "n < 100 \<Longrightarrow> read_digits 2 (digits 2 n @ rest) = Some (n, rest)" for n rest
    by (simp add: read_digits_digits)
  have iso: "isoformat t =
      digits 4 (year t) @ CHR ''-'' # digits 2 (month t) @ CHR ''-'' # digits 2 (day t) @
      CHR ''T'' # digits 2 (hour t) @ CHR '':'' # digits 2 (minute t) @
      CHR '':'' # digits 2 (second t) @ frac"
    by (simp add: isoformat_def frac_def)
  show ?thesis
    unfolding parse_datetime_def iso
    using assms by (simp add: y two read_char_Cons read_any_Cons f)
qed

lemma days_in_month_le: "days_in_month y m \<le> 31"
  by (simp add: days_in_month_def)

lemma fromisoformat_isoformat:
  "valid_datetime t \<Longrightarrow> fromisoformat other (isoformat t) = Inr t"
proof -
  assume v: "valid_datetime t"
  have "day t \<le> 31"
    using v days_in_month_le [of "year t" "month t"] by (simp add: valid_datetime_def)
  with v have "parse_datetime (isoformat t) = Some t"
    by (intro parse_datetime_isoformat) (simp_all add: valid_datetime_def)
  with v show ?thesis
    by (simp add: fromisoformat_def)
qed

lemma from_record_to_record:
  "valid_datetime (timestamp mem) \<Longrightarrow> from_record other (to_record mem) = Inr mem"
  by (simp add: from_record_def to_record_def fromisoformat_isoformat)

lemma from_records_to_records:
  "\<forall>mem \<in> set mems. valid_datetime (timestamp mem) \<Longrightarrow>
   from_records other (map to_record mems) = Inr mems"
  by (induction mems) (simp_all add: from_record_to_record)

text \<open>
  Claim C6. When every timestamp in the long-term list is a date and time that a
  \<^verbatim>\<open>datetime\<close> can hold, a write that succeeds leaves in the file one record for each
  item, in order, and the constructor, given that file, returns a manager whose long-term
  list is equal to the original one: the same items with the same content, importance,
  tags and timestamp, down to the microsecond. This holds for every capacity, and whatever
  the library does with other strings and \<^verbatim>\<open>print\<close> would do.
\<close>

theorem save_load_roundtrip:
  "\<forall>mem \<in> set (long_term s). valid_datetime (timestamp mem) \<Longrightarrow>
   memory_file (save_memory Written s) = Records (map to_record (long_term s)) \<and>
   MemorySystem_init other p cap (memory_file (save_memory Written s)) =
     Inr \<lparr>max_short_term = cap, memory_file = Records (map to_record (long_term s)),
          short_term = [], long_term = long_term s\<rparr>"
  by (simp add: save_memory_def MemorySystem_init_def load_memory_def path_exists_def
      read_store_def from_records_to_records)

theorem save_load_roundtrip_witness:
  "MemorySystem_init no_other_form Printed 10 (memory_file (save_memory Written ex_stored)) =
     Inr \<lparr>max_short_term = 10, memory_file = Records (map to_record (long_term ex_stored)),
          short_term = [], long_term = long_term ex_stored\<rparr>"
proof -
  have h: "\<forall>mem \<in> set (long_term ex_stored). valid_datetime (timestamp mem)"
    by (simp add: ex_stored_def ex_A_def ex_B_def ex_time_def valid_datetime_def
        days_in_month_def)
  show ?thesis
    by (rule conjunct2 [OF save_load_roundtrip [OF h]])
qed

subsection \<open>Loading that fails\<close>











subsection \<open>The order of the search result\<close>

lemma slice_upto_nonneg: "0 \<le> j \<Longrightarrow> slice_upto j xs = take (nat j) xs"
  by (simp add: slice_upto_def Let_def min_def)

lemma slice_upto_neg: "j < 0 \<Longrightarrow> slice_upto j xs = take (length xs - nat (- j)) xs"
  by (auto simp add: slice_upto_def Let_def max_def
      intro: arg_cong [where f = "\<lambda>n. take n xs"])

lemma slice_upto_prefix: "prefix (slice_upto j xs) xs"
  by (simp add: slice_upto_def Let_def take_is_prefix)

lemma sorted_reverse_sorted: "sorted_wrt (\<lambda>x y. k x \<ge> k y) (sorted_reverse k xs)"
proof -
  have "sorted (map (\<lambda>x. - k x) (sort_key (\<lambda>x. - k x) xs))"
    by (rule sorted_sort_key)
  then show ?thesis
    by (simp add: sorted_reverse_def sorted_map)
qed

lemma sorted_reverse_mset: "mset (sorted_reverse k xs) = mset xs"
  by (simp add: sorted_reverse_def)

lemma sorted_reverse_stable:
  "filter (\<lambda>x. k x = v) (sorted_reverse k xs) = filter (\<lambda>x. k x = v) xs"
  using sort_key_stable [of "\<lambda>x. - k x" "- v" xs]
  by (simp add: sorted_reverse_def)

lemma sorted_wrt_prefix: "prefix xs ys \<Longrightarrow> sorted_wrt P ys \<Longrightarrow> sorted_wrt P xs"
  by (auto simp add: prefix_def sorted_wrt_append)

lemma search_ex_full_negative: "search_memory ''a b'' (- 1) ex_full = [ex_B]"
  by code_simp

lemma sorted_ex_full:
  "sorted_reverse importance
     (filter (relevant ''a b'') (short_term ex_full @ long_term ex_full)) = [ex_B, ex_A]"
  by code_simp

text \<open>
  Claim C4 as stated fails: \<^verbatim>\<open>limit\<close> is any \<^verbatim>\<open>int\<close>, and for a negative limit the slice
  \<^verbatim>\<open>[:limit]\<close> drops entries from the end. With the two matches B and A and the limit
  \<open>-1\<close> the result is the one item B, which is not the first \<open>-1\<close> entries of the sorted
  sequence.
\<close>

theorem search_memory_order_counterexample:
  "search_memory ''a b'' (- 1) ex_full = [ex_B] \<and>
   sorted_reverse importance
     (filter (relevant ''a b'') (short_term ex_full @ long_term ex_full)) = [ex_B, ex_A] \<and>
   search_memory ''a b'' (- 1) ex_full \<noteq>
     first_entries (- 1) (sorted_reverse importance
       (filter (relevant ''a b'') (short_term ex_full @ long_term ex_full)))"
  unfolding sorted_ex_full search_ex_full_negative first_entries_def by simp

text \<open>
  Claim C4, amended. Let \<open>ms\<close> be the matches in the order of the candidate sequence and
  \<open>S\<close> the sequence the code sorts them into. \<open>S\<close> is in descending order of importance,
  holds exactly the matches, and holds the matches of any one importance in the order of
  \<open>ms\<close> (the sort is stable). For a limit that is not negative the result is the first
  \<open>limit\<close> entries of \<open>S\<close>; for a negative limit it is \<open>S\<close> without its last \<open>-limit\<close>
  entries. In both cases the result is sorted, and its items of any one importance are in
  the order they have among the candidates.
\<close>

theorem search_memory_order:
  "(let ms = filter (relevant q) (short_term s @ long_term s);
        S = sorted_reverse importance ms;
        r = search_memory q limit s
    in sorted_wrt (\<lambda>x y. importance x \<ge> importance y) S \<and> mset S = mset ms \<and>
       (\<forall>v. filter (\<lambda>x. importance x = v) S = filter (\<lambda>x. importance x = v) ms) \<and>
       (0 \<le> limit \<longrightarrow> r = take (nat limit) S) \<and>
       (limit < 0 \<longrightarrow> r = take (length S - nat (- limit)) S) \<and>
       sorted_wrt (\<lambda>x y. importance x \<ge> importance y) r \<and>
       (\<forall>v. prefix (filter (\<lambda>x. importance x = v) r) (filter (\<lambda>x. importance x = v) ms)))"
proof -
  define ms where "ms = filter (relevant q) (short_term s @ long_term s)"
  define S where "S = sorted_reverse importance ms"
  have r: "search_memory q limit s = slice_upto limit S"
    by (simp add: search_memory_def S_def ms_def Let_def)
  have p: "prefix (search_memory q limit s) S"
    unfolding r by (rule slice_upto_prefix)
  have st: "filter (\<lambda>x. importance x = v) S = filter (\<lambda>x. importance x = v) ms" for v
    unfolding S_def by (rule sorted_reverse_stable)
  have so: "sorted_wrt (\<lambda>x y. importance x \<ge> importance y) S"
    unfolding S_def by (rule sorted_reverse_sorted)
  have a: "sorted_wrt (\<lambda>x y. importance x \<ge> importance y) (search_memory q limit s)"
    using p so by (rule sorted_wrt_prefix)
  have b: "prefix (filter (\<lambda>x. importance x = v) (search_memory q limit s))
      (filter (\<lambda>x. importance x = v) ms)" for v
    using filter_mono_prefix [OF p, of "\<lambda>x. importance x = v"] by (simp add: st)
  have c: "0 \<le> limit \<longrightarrow> search_memory q limit s = take (nat limit) S"
    by (simp add: r slice_upto_nonneg)
  have d: "limit < 0 \<longrightarrow> search_memory q limit s = take (length S - nat (- limit)) S"
    by (simp add: r slice_upto_neg)
  have e: "mset S = mset ms"
    unfolding S_def by (rule sorted_reverse_mset)
  show ?thesis
    unfolding Let_def ms_def [symmetric] S_def [symmetric]
    using so e st c d a b by blast
qed

theorem search_memory_order_witness:
  "search_memory ''a b'' 1 ex_full =
     take (nat 1) (sorted_reverse importance
       (filter (relevant ''a b'') (short_term ex_full @ long_term ex_full)))"
proof -
  have h: "(0::int) \<le> 1"
    by simp
  show ?thesis
    using search_memory_order [of "''a b''" ex_full 1] h
    unfolding Let_def by blast
qed

subsection \<open>The matches of a search\<close>

lemma str_contains_sublist: "str_contains sub s = sublist sub s"
  by (induction s) (simp_all add: sublist_Cons_right)

lemma is_token_nospace:
  assumes "list_all (\<lambda>c. \<not> isspace c) u"
  shows "is_token u w \<longleftrightarrow> (u \<noteq> [] \<and> w = u)"
proof
  assume t: "is_token u w"
  then obtain pre suf where d: "u = pre @ w @ suf" "pre = [] \<or> isspace (last pre)"
      "suf = [] \<or> isspace (hd suf)" "w \<noteq> []"
    by (auto simp add: is_token_def)
  have "pre = []"
  proof (rule ccontr)
    assume n: "pre \<noteq> []"
    then have "last pre \<in> set u" using d(1) by simp
    then show False using assms d(2) n by (auto simp add: list_all_iff)
  qed
  moreover have "suf = []"
  proof (rule ccontr)
    assume n: "suf \<noteq> []"
    then have "hd suf \<in> set u" using d(1) by simp
    then show False using assms d(3) n by (auto simp add: list_all_iff)
  qed
  ultimately show "u \<noteq> [] \<and> w = u" using d by simp
next
  assume "u \<noteq> [] \<and> w = u"
  then show "is_token u w" using assms
    by (auto simp add: is_token_def intro: exI [where x = "[]"])
qed

lemma is_token_space:
  assumes c: "isspace c"
  shows "is_token (u @ c # v) w \<longleftrightarrow> is_token u w \<or> is_token v w"
proof
  assume t: "is_token (u @ c # v) w"
  then obtain pre suf where d: "u @ c # v = pre @ w @ suf" "pre = [] \<or> isspace (last pre)"
      "suf = [] \<or> isspace (hd suf)" "w \<noteq> []" and ns: "list_all (\<lambda>c. \<not> isspace c) w"
    by (auto simp add: is_token_def)
  from d(1) consider
      (left) us where "u = pre @ us" "us @ c # v = w @ suf"
    | (right) us where "u @ us = pre" "c # v = us @ w @ suf"
    by (auto simp add: append_eq_append_conv2)
  then show "is_token u w \<or> is_token v w"
  proof cases
    case right
    show ?thesis
    proof (cases us)
      case Nil
      then have "hd w = c" using right(2) d(4) by (cases w) auto
      then have False using c ns d(4) by (cases w) auto
      then show ?thesis ..
    next
      case (Cons a us')
      then have v: "v = us' @ w @ suf" and a: "a = c" using right(2) by auto
      have "us' = [] \<or> isspace (last us')"
        using d(2) right(1) Cons by (auto split: if_splits)
      then have "is_token v w"
        unfolding is_token_def using v d(3,4) ns by blast
      then show ?thesis ..
    qed
  next
    case left
    from left(2) consider
        (in_suf) vs where "us = w @ vs" "vs @ c # v = suf"
      | (in_w) vs where "us @ vs = w" "c # v = vs @ suf"
      by (auto simp add: append_eq_append_conv2)
    then show ?thesis
    proof cases
      case in_suf
      have "vs = [] \<or> isspace (hd vs)"
        using d(3) in_suf(2) by (cases vs) auto
      then have "is_token u w"
        unfolding is_token_def using left(1) in_suf(1) d(2,4) ns by auto
      then show ?thesis ..
    next
      case in_w
      show ?thesis
      proof (cases vs)
        case Nil
        then have "u = pre @ w @ []" using left(1) in_w(1) by simp
        then have "is_token u w"
          unfolding is_token_def using d(2,4) ns by blast
        then show ?thesis ..
      next
        case (Cons a vs')
        then have "c \<in> set w" using in_w by auto
        then have False using c ns by (auto simp add: list_all_iff)
        then show ?thesis ..
      qed
    qed
  qed
next
  assume "is_token u w \<or> is_token v w"
  then show "is_token (u @ c # v) w"
  proof
    assume "is_token u w"
    then obtain pre suf where d: "u = pre @ w @ suf" "pre = [] \<or> isspace (last pre)"
        "suf = [] \<or> isspace (hd suf)" "w \<noteq> []" and ns: "list_all (\<lambda>c. \<not> isspace c) w"
      by (auto simp add: is_token_def)
    have 1: "u @ c # v = pre @ w @ (suf @ c # v)" using d(1) by simp
    have 2: "suf @ c # v = [] \<or> isspace (hd (suf @ c # v))"
      using d(3) c by (cases suf) auto
    show ?thesis unfolding is_token_def using 1 2 d(2,4) ns by blast
  next
    assume "is_token v w"
    then obtain pre suf where d: "v = pre @ w @ suf" "pre = [] \<or> isspace (last pre)"
        "suf = [] \<or> isspace (hd suf)" "w \<noteq> []" and ns: "list_all (\<lambda>c. \<not> isspace c) w"
      by (auto simp add: is_token_def)
    have 1: "u @ c # v = (u @ c # pre) @ w @ suf" using d(1) by simp
    have 2: "u @ c # pre = [] \<or> isspace (last (u @ c # pre))"
      using d(2) c by auto
    show ?thesis unfolding is_token_def using 1 2 d(3,4) ns by blast
  qed
qed

lemma is_token_Nil: "\<not> is_token [] w"
  by (simp add: is_token_def)

lemma split_acc_tokens:
  "list_all (\<lambda>c. \<not> isspace c) cur \<Longrightarrow> set (split_acc cur cs) = {w. is_token (cur @ cs) w}"
proof (induction cs arbitrary: cur)
  case Nil
  then show ?case by (auto simp add: is_token_nospace)
next
  case (Cons c cs)
  show ?case
  proof (cases "isspace c")
    case True
    have e: "set (split_acc [] cs) = {w. is_token cs w}"
      using Cons.IH [of "[]"] by simp
    show ?thesis
      using True Cons.prems e by (auto simp add: is_token_space is_token_nospace)
  next
    case False
    then have "list_all (\<lambda>c. \<not> isspace c) (cur @ [c])" using Cons.prems by simp
    from Cons.IH [OF this] show ?thesis using False by simp
  qed
qed

lemma str_split_tokens: "set (str_split q) = {w. is_token q w}"
  using split_acc_tokens [of "[]" q] by (simp add: str_split_def)

lemma relevant_spec_matches: "relevant q mem = spec_matches q mem"
  using str_split_tokens [of q]
  by (auto simp add: relevant_def spec_matches_def list_ex_iff str_contains_sublist)

lemma prefix_mset: "prefix xs ys \<Longrightarrow> mset xs \<subseteq># mset ys"
  by (auto simp add: prefix_def)

lemma slice_upto_all: "int (length xs) \<le> j \<Longrightarrow> slice_upto j xs = xs"
  by (simp add: slice_upto_def Let_def min_def)

lemma slice_upto_length: "0 \<le> j \<Longrightarrow> length (slice_upto j xs) = min (nat j) (length xs)"
  by (simp add: slice_upto_def Let_def min_def)

lemma search_ex_six:
  "search_memory ''Note'' 5 ex_six = [ex_note 1, ex_note 2, ex_note 3, ex_note 4, ex_note 5]"
  by code_simp

lemma relevant_ex_note_6: "relevant ''Note'' (ex_note 6)"
  by code_simp

lemma ex_note_6_fresh: "ex_note 6 \<notin> set [ex_note 1, ex_note 2, ex_note 3, ex_note 4, ex_note 5]"
  by code_simp

text \<open>
  Claim C3 as stated fails: the result is cut to \<^verbatim>\<open>limit\<close> entries (5 when the caller
  gives none), so a match can be missing from it. Of the six notes, all of which match the
  query \<^verbatim>\<open>Note\<close>, the search with the limit 5 returns five; the sixth is a candidate and
  a match, and is not returned.
\<close>

theorem search_memory_matches_counterexample:
  "ex_note 6 \<in> set (short_term ex_six @ long_term ex_six) \<and>
   spec_matches ''Note'' (ex_note 6) \<and>
   ex_note 6 \<notin> set (search_memory ''Note'' 5 ex_six)"
  unfolding search_ex_six
  using relevant_ex_note_6 ex_note_6_fresh
  by (simp add: relevant_spec_matches [symmetric] ex_six_def)

text \<open>
  Claim C3, amended. The match the code computes is the match of the specification, and it
  reads nothing of an item but its content (so not its tags). With \<open>ms\<close> the candidates
  that match, each with the number of times it is a candidate: every item of the result is
  among \<open>ms\<close>, no more often than there; when the limit is at least the number of matches,
  the result holds exactly the items of \<open>ms\<close>; and for a limit that is not negative the
  result has \<open>limit\<close> items, or all of \<open>ms\<close> when these are fewer.
\<close>

theorem search_memory_matches:
  "(let ms = filter (spec_matches q) (short_term s @ long_term s);
        r = search_memory q limit s
    in mset r \<subseteq># mset ms \<and>
       (int (length ms) \<le> limit \<longrightarrow> mset r = mset ms) \<and>
       (0 \<le> limit \<longrightarrow> length r = min (nat limit) (length ms)) \<and>
       (\<forall>m m'. content m = content m' \<longrightarrow> spec_matches q m = spec_matches q m') \<and>
       (\<forall>m. relevant q m = spec_matches q m))"
proof -
  define ms where "ms = filter (spec_matches q) (short_term s @ long_term s)"
  define S where "S = sorted_reverse importance ms"
  have f: "relevant q = spec_matches q"
    by (rule ext) (rule relevant_spec_matches)
  have r: "search_memory q limit s = slice_upto limit S"
    by (simp add: search_memory_def S_def ms_def Let_def f)
  have l: "length S = length ms"
    by (simp add: S_def sorted_reverse_def)
  have e: "mset S = mset ms"
    by (simp add: S_def sorted_reverse_def)
  have "prefix (slice_upto limit S) S"
    by (simp add: slice_upto_def Let_def take_is_prefix)
  then have a: "mset (search_memory q limit s) \<subseteq># mset ms"
    unfolding r e [symmetric] by (rule prefix_mset)
  have b: "int (length ms) \<le> limit \<longrightarrow> mset (search_memory q limit s) = mset ms"
    by (simp add: r l slice_upto_all e)
  have c: "0 \<le> limit \<longrightarrow> length (search_memory q limit s) = min (nat limit) (length ms)"
    by (simp add: r l slice_upto_length)
  have d: "content m = content m' \<longrightarrow> spec_matches q m = spec_matches q m'" for m m'
    by (simp add: spec_matches_def)
  show ?thesis
    unfolding Let_def ms_def [symmetric]
    using a b c d relevant_spec_matches by blast
qed

lemma search_ex_full_A: "search_memory ''x a'' 5 ex_full = [ex_A]"
  by code_simp

lemma filter_ex_full_A: "filter (relevant ''x a'') (short_term ex_full @ long_term ex_full) = [ex_A]"
  by code_simp

theorem search_memory_matches_witness:
  "int (length (filter (spec_matches ''x a'') (short_term ex_full @ long_term ex_full))) \<le> 5 \<and>
   mset (search_memory ''x a'' 5 ex_full) =
     mset (filter (spec_matches ''x a'') (short_term ex_full @ long_term ex_full)) \<and>
   search_memory ''x a'' 5 ex_full = [ex_A]"
proof -
  have f: "spec_matches ''x a'' = relevant ''x a''"
    by (rule ext) (rule relevant_spec_matches [symmetric])
  have h: "int (length (filter (spec_matches ''x a'')
      (short_term ex_full @ long_term ex_full))) \<le> 5"
    unfolding f filter_ex_full_A by simp
  have "mset (search_memory ''x a'' 5 ex_full) =
     mset (filter (spec_matches ''x a'') (short_term ex_full @ long_term ex_full))"
    using search_memory_matches [of "''x a''" ex_full 5] h
    unfolding Let_def by blast
  then show ?thesis
    using h search_ex_full_A by simp
qed

end
